theory Spec2Isabelle
  imports Main
begin

section \<open>The decimal numbers of the account\<close>

text \<open>
  \<^verbatim>\<open>deposito_bancario.py\<close> keeps every amount as a \<^verbatim>\<open>decimal.Decimal\<close>. A Decimal is a
  sign, a coefficient and an exponent (the number \<open>\<plusminus> c * 10^e\<close>), an infinity, or a NaN.
  Construction from text is exact; arithmetic is rounded by the default context
  (\<^verbatim>\<open>prec=28, rounding=ROUND_HALF_EVEN, Emin=-999999, Emax=999999\<close>, traps
  \<^verbatim>\<open>InvalidOperation, DivisionByZero, Overflow\<close>), which the program never changes.
  The sign is \<open>True\<close> for a negative number. A NaN keeps its sign and whether it is
  signalling; its diagnostic digits play no part in any operation of the program and
  are left out.
\<close>

datatype decimal = Finite bool nat int | Infinity bool | NaN bool bool

datatype erro_valor = FormatoInvalido | NumeroInvalido

datatype excecao = ValueError erro_valor | InvalidOperation | Overflow

definition prec :: int where "prec = 28"
definition Emax :: int where "Emax = 999999"
definition Emin :: int where "Emin = - 999999"
definition Etiny :: int where "Etiny = Emin - prec + 1"
definition Etop :: int where "Etop = Emax - prec + 1"

text \<open>\<^verbatim>\<open>len(str(n))\<close>: the number of decimal digits of a coefficient.\<close>

fun ndigits :: "nat \<Rightarrow> nat" where
  "ndigits n = (if n < 10 then 1 else Suc (ndigits (n div 10)))"

declare ndigits.simps [simp del]

text \<open>
  Dropping the last \<open>k\<close> digits of a coefficient under \<^verbatim>\<open>ROUND_HALF_EVEN\<close>: the kept
  digits go up by one when the dropped part is more than a half, or exactly a half
  with an odd last kept digit.
\<close>

definition arredondar :: "nat \<Rightarrow> nat \<Rightarrow> nat" where
  "arredondar c k =
     (let q = c div 10 ^ k; r = c mod 10 ^ k
      in if 2 * r > 10 ^ k \<or> (2 * r = 10 ^ k \<and> odd q) then q + 1 else q)"

text \<open>
  The context's final step on every arithmetic result (\<^verbatim>\<open>Decimal._fix\<close>): a zero has its
  exponent clamped; a result whose adjusted exponent exceeds \<open>Emax\<close> raises
  \<^verbatim>\<open>Overflow\<close>; a coefficient of more than \<open>prec\<close> digits, or an exponent below
  \<open>Etiny\<close>, is rounded.
\<close>

definition dec_fix :: "bool \<Rightarrow> nat \<Rightarrow> int \<Rightarrow> excecao + decimal" where
  "dec_fix s c e =
     (if c = 0 then Inr (Finite s 0 (min (max e Etiny) Emax))
      else
        let exp_min0 = int (ndigits c) + e - prec in
        if exp_min0 > Etop then Inl Overflow
        else
          let exp_min = max exp_min0 Etiny in
          if e < exp_min then
            let coeff = arredondar c (nat (exp_min - e));
                coeff' = (if int (ndigits coeff) > prec then coeff div 10 else coeff);
                exp_min' = (if int (ndigits coeff) > prec then exp_min + 1 else exp_min)
            in if exp_min' > Etop then Inl Overflow
               else Inr (Finite s coeff' exp_min')
          else Inr (Finite s c e))"

text \<open>The signed coefficient of \<open>\<plusminus> c * 10^e\<close> written with the smaller exponent \<open>e0\<close>.\<close>

definition alinhado :: "bool \<Rightarrow> nat \<Rightarrow> int \<Rightarrow> int \<Rightarrow> int" where
  "alinhado s c e e0 = (if s then - 1 else 1) * int c * 10 ^ nat (e - e0)"

text \<open>
  \<^verbatim>\<open>Decimal.__add__\<close>: a signalling NaN raises, a quiet one propagates, infinities of
  opposite sign raise; two finite numbers are added exactly at the smaller exponent
  and the sum goes through \<open>dec_fix\<close>. An exact zero sum is negative only when both
  operands are negative zeros.
\<close>

fun dec_add :: "decimal \<Rightarrow> decimal \<Rightarrow> excecao + decimal" where
  "dec_add (NaN s sig) b =
     (if sig then Inl InvalidOperation
      else (case b of NaN t True \<Rightarrow> Inl InvalidOperation | _ \<Rightarrow> Inr (NaN s False)))"
| "dec_add a (NaN t sig) = (if sig then Inl InvalidOperation else Inr (NaN t False))"
| "dec_add (Infinity s) (Infinity t) = (if s = t then Inr (Infinity s) else Inl InvalidOperation)"
| "dec_add (Infinity s) (Finite t d f) = Inr (Infinity s)"
| "dec_add (Finite s c e) (Infinity t) = Inr (Infinity t)"
| "dec_add (Finite s c e) (Finite t d f) =
     (let m = min e f; total = alinhado s c e m + alinhado t d f m
      in if total = 0 then dec_fix (c = 0 \<and> d = 0 \<and> s \<and> t) 0 m
         else dec_fix (total < 0) (nat \<bar>total\<bar>) m)"

fun copy_negate :: "decimal \<Rightarrow> decimal" where
  "copy_negate (Finite s c e) = Finite (\<not> s) c e"
| "copy_negate (Infinity s) = Infinity (\<not> s)"
| "copy_negate (NaN s sig) = NaN (\<not> s) sig"

definition eh_nan :: "decimal \<Rightarrow> bool" where
  "eh_nan d = (case d of NaN s sig \<Rightarrow> True | _ \<Rightarrow> False)"

text \<open>
  \<^verbatim>\<open>Decimal.__sub__\<close> treats a NaN operand as the addition does, and otherwise adds the
  negated operand.
\<close>

definition dec_sub :: "decimal \<Rightarrow> decimal \<Rightarrow> excecao + decimal" where
  "dec_sub a b = (if eh_nan a \<or> eh_nan b then dec_add a b else dec_add a (copy_negate b))"

text \<open>
  \<^verbatim>\<open>Decimal._cmp\<close>: \<open>-1\<close>, \<open>0\<close> or \<open>1\<close> by numeric value (the exponent alone never
  distinguishes two numbers), and nothing for a NaN.
\<close>

fun dec_cmp :: "decimal \<Rightarrow> decimal \<Rightarrow> int option" where
  "dec_cmp (NaN s sig) b = None"
| "dec_cmp a (NaN t sig) = None"
| "dec_cmp (Infinity s) (Infinity t) = Some (if s = t then 0 else if s then - 1 else 1)"
| "dec_cmp (Infinity s) (Finite t d f) = Some (if s then - 1 else 1)"
| "dec_cmp (Finite s c e) (Infinity t) = Some (if t then 1 else - 1)"
| "dec_cmp (Finite s c e) (Finite t d f) =
     (let m = min e f; x = alinhado s c e m; y = alinhado t d f m
      in Some (if x < y then - 1 else if x = y then 0 else 1))"

text \<open>
  The ordering operators \<^verbatim>\<open><=\<close> and \<^verbatim>\<open>>\<close> of Decimal raise \<^verbatim>\<open>InvalidOperation\<close> when an
  operand is a NaN (quiet or signalling).
\<close>

definition dec_le :: "decimal \<Rightarrow> decimal \<Rightarrow> excecao + bool" where
  "dec_le a b = (case dec_cmp a b of None \<Rightarrow> Inl InvalidOperation | Some k \<Rightarrow> Inr (k \<le> 0))"

definition dec_gt :: "decimal \<Rightarrow> decimal \<Rightarrow> excecao + bool" where
  "dec_gt a b = (case dec_cmp a b of None \<Rightarrow> Inl InvalidOperation | Some k \<Rightarrow> Inr (k > 0))"

text \<open>The integer \<^verbatim>\<open>0\<close> of \<^verbatim>\<open>valor_decimal <= 0\<close>, converted as the comparison does.\<close>

definition zero_int :: decimal where
  "zero_int = Finite False 0 0"

section \<open>Text\<close>

text \<open>
  A Python \<^verbatim>\<open>str\<close> is a sequence of code points. The model keeps the code points below
  256, one \<open>char\<close> each, which covers every literal of the program (\<open>0xD3\<close> is the
  accented O of the deposit label). In that range \<^verbatim>\<open>str.strip\<close> removes the twelve
  characters below and \<^verbatim>\<open>\d\<close> matches the ten ASCII digits only.
\<close>

definition isspace :: "char \<Rightarrow> bool" where
  "isspace c = ((of_char c :: nat) \<in> set [9, 10, 11, 12, 13, 28, 29, 30, 31, 32, 133, 160])"

definition isdigit :: "char \<Rightarrow> bool" where
  "isdigit c = (48 \<le> (of_char c :: nat) \<and> (of_char c :: nat) \<le> 57)"

definition strip :: "string \<Rightarrow> string" where
  "strip s = rev (dropWhile isspace (rev (dropWhile isspace s)))"

definition replace :: "char \<Rightarrow> char \<Rightarrow> string \<Rightarrow> string" where
  "replace a b s = map (\<lambda>c. if c = a then b else c) s"

text \<open>
  \<^verbatim>\<open>re.match(r'^\d+(\.\d{1,2})?$', valor)\<close>. The greedy \<^verbatim>\<open>\d+\<close> takes every leading digit
  (giving one back leaves a digit where only a period or the end can follow); then
  the text ends, or a period and one or two digits follow and the text ends. \<^verbatim>\<open>$\<close>
  holds at the end of the text and also just before a final newline.
\<close>

definition fim :: "string \<Rightarrow> bool" where
  "fim s = (s = [] \<or> s = [CHR 0x0A])"

definition re_match :: "string \<Rightarrow> bool" where
  "re_match s =
     (let ds = takeWhile isdigit s; r = dropWhile isdigit s
      in ds \<noteq> [] \<and>
         (fim r \<or>
          (case r of
             p # d1 # t \<Rightarrow>
               p = CHR ''.'' \<and> isdigit d1 \<and>
               (fim t \<or> (case t of d2 # u \<Rightarrow> isdigit d2 \<and> fim u | [] \<Rightarrow> False))
           | _ \<Rightarrow> False)))"

subsection \<open>The constructor \<^verbatim>\<open>Decimal(text)\<close>\<close>

definition valor_digito :: "char \<Rightarrow> nat" where
  "valor_digito c = of_char c - 48"

definition nat_de_digitos :: "string \<Rightarrow> nat" where
  "nat_de_digitos ds = foldl (\<lambda>n c. 10 * n + valor_digito c) 0 ds"

definition minuscula :: "char \<Rightarrow> char" where
  "minuscula c =
     (if 65 \<le> (of_char c :: nat) \<and> (of_char c :: nat) \<le> 90 then char_of ((of_char c :: nat) + 32)
      else c)"

text \<open>The exponent part: nothing, or \<^verbatim>\<open>E\<close>, an optional sign and at least one digit.\<close>

definition expoente :: "string \<Rightarrow> int option" where
  "expoente r =
     (case r of
        [] \<Rightarrow> Some 0
      | x # t \<Rightarrow>
          if minuscula x \<noteq> CHR ''e'' then None
          else
            let neg = (case t of y # _ \<Rightarrow> y = CHR ''-'' | [] \<Rightarrow> False);
                ds = (case t of y # u \<Rightarrow> if y = CHR ''-'' \<or> y = CHR ''+'' then u else t | [] \<Rightarrow> [])
            in if ds \<noteq> [] \<and> list_all isdigit ds
               then Some ((if neg then - 1 else 1) * int (nat_de_digitos ds))
               else None)"

text \<open>
  A finite number: digits, an optional period and digits, with at least one digit
  in all, then the exponent part. The coefficient is the digits read as one integer
  and the exponent is lowered by the number of fraction digits.
\<close>

definition numero :: "bool \<Rightarrow> string \<Rightarrow> decimal option" where
  "numero s r =
     (let intpart = takeWhile isdigit r;
          r1 = dropWhile isdigit r;
          ponto = (case r1 of p # _ \<Rightarrow> p = CHR ''.'' | [] \<Rightarrow> False);
          fracpart = (if ponto then takeWhile isdigit (tl r1) else []);
          r2 = (if ponto then dropWhile isdigit (tl r1) else r1)
      in if intpart = [] \<and> fracpart = [] then None
         else (case expoente r2 of
                 None \<Rightarrow> None
               | Some ex \<Rightarrow>
                   Some (Finite s (nat_de_digitos (intpart @ fracpart)) (ex - int (length fracpart)))))"

text \<open>
  Infinity and NaN, in any letter case; a NaN may be followed by digits.
\<close>

definition especial :: "bool \<Rightarrow> string \<Rightarrow> decimal option" where
  "especial s r =
     (let l = map minuscula r
      in if l = ''inf'' \<or> l = ''infinity'' then Some (Infinity s)
         else if take 3 l = ''nan'' \<and> list_all isdigit (drop 3 l) then Some (NaN s False)
         else if take 4 l = ''snan'' \<and> list_all isdigit (drop 4 l) then Some (NaN s True)
         else None)"

text \<open>
  \<^verbatim>\<open>Decimal(text)\<close> strips the text, removes every underscore, reads an optional sign
  and then a finite number, an infinity or a NaN; anything else raises
  \<^verbatim>\<open>InvalidOperation\<close>. The conversion is exact, whatever the number of digits, and
  the exponent is read as an integer of any size (the C implementation of the module
  refuses an exponent beyond about \<open>10^18\<close> in either direction; that bound is left
  out here).
\<close>

definition Decimal :: "string \<Rightarrow> excecao + decimal" where
  "Decimal txt =
     (let t = filter (\<lambda>c. c \<noteq> CHR ''_'') (strip txt);
          s = (case t of x # _ \<Rightarrow> x = CHR ''-'' | [] \<Rightarrow> False);
          r = (case t of x # u \<Rightarrow> if x = CHR ''-'' \<or> x = CHR ''+'' then u else t | [] \<Rightarrow> [])
      in case numero s r of
           Some d \<Rightarrow> Inr d
         | None \<Rightarrow> (case especial s r of Some d \<Rightarrow> Inr d | None \<Rightarrow> Inl InvalidOperation))"

subsection \<open>Formatting\<close>

fun texto_nat :: "nat \<Rightarrow> string" where
  "texto_nat n =
     (if n < 10 then [char_of (48 + n)] else texto_nat (n div 10) @ [char_of (48 + n mod 10)])"

declare texto_nat.simps [simp del]

definition str_int :: "int \<Rightarrow> string" where
  "str_int i = (if i < 0 then CHR ''-'' # texto_nat (nat (- i)) else texto_nat (nat i))"

text \<open>The alignments \<^verbatim>\<open>>w\<close> and \<^verbatim>\<open>^w\<close> of a format specification.\<close>

definition rjust :: "nat \<Rightarrow> string \<Rightarrow> string" where
  "rjust w s = replicate (w - length s) (CHR '' '') @ s"

definition center :: "nat \<Rightarrow> string \<Rightarrow> string" where
  "center w s =
     (let pad = w - length s; left = pad div 2
      in replicate left (CHR '' '') @ s @ replicate (pad - left) (CHR '' ''))"

text \<open>
  The presentation \<^verbatim>\<open>.2f\<close> of a Decimal: the number rescaled to exponent \<open>-2\<close>
  (half-even, with no limit on the digits), its sign, integer digits, a period and two
  digits. Formatting never raises.
\<close>

definition rescale2 :: "nat \<Rightarrow> int \<Rightarrow> nat" where
  "rescale2 c e = (if e \<ge> - 2 then c * 10 ^ nat (e + 2) else arredondar c (nat (- 2 - e)))"

definition format_2f :: "decimal \<Rightarrow> string" where
  "format_2f d =
     (case d of
        Finite s c e \<Rightarrow>
          (let q = rescale2 c e
           in (if s then ''-'' else []) @ texto_nat (q div 100) @ ''.'' @
              [char_of (48 + q mod 100 div 10), char_of (48 + q mod 10)])
      | Infinity s \<Rightarrow> (if s then ''-'' else []) @ ''Infinity''
      | NaN s sig \<Rightarrow> (if s then ''-'' else []) @ (if sig then ''sNaN'' else ''NaN''))"

section \<open>The account\<close>

text \<open>
  An argument of \<^verbatim>\<open>depositar\<close> and \<^verbatim>\<open>sacar\<close> is either a \<^verbatim>\<open>str\<close> or some other
  object. The program uses another object only through \<^verbatim>\<open>str(valor)\<close>, so it is given
  by that text: the float \<^verbatim>\<open>10.555\<close> is \<open>PyOutro ''10.555''\<close>, the integer \<^verbatim>\<open>-5\<close> is
  \<open>PyOutro ''-5''\<close> and \<^verbatim>\<open>float('inf')\<close> is \<open>PyOutro ''inf''\<close>.
\<close>

datatype pyvalor = PyStr string | PyOutro string

record operacao =
  data :: string
  tipo :: string
  valor :: decimal

text \<open>
  The attributes of \<^verbatim>\<open>ContaBancaria\<close>. The daily limit is an integer, as its default
  is; an entry of the history is the dictionary of \<^verbatim>\<open>_adicionar_historico\<close>.
\<close>

record ContaBancaria =
  saldo :: decimal
  limite_saque :: decimal
  limite_saques_diarios :: int
  numero_saques :: int
  historico :: "operacao list"

text \<open>
  The second component of every result, one constructor for each message of the
  source, with the values the message prints: the two confirmations (lines 34 and
  72), the must-be-positive message (lines 29 and 55), the daily-limit message (line
  59), the limit of each withdrawal (line 62), the insufficient balance (line 65), the
  text of a \<^verbatim>\<open>ValueError\<close> (lines 37 and 75) and the unexpected error (lines 39 and
  77). In the words of the specification these are, from the third on,
  \<^verbatim>\<open>InvalidAmount\<close>, \<^verbatim>\<open>DailyLimitExceeded\<close>, \<^verbatim>\<open>PerTransactionLimitExceeded\<close>,
  \<^verbatim>\<open>InsufficientFunds\<close> and, for \<open>ErroValor FormatoInvalido\<close>, \<^verbatim>\<open>InvalidFormat\<close>.
\<close>

datatype mensagem =
    DepositoRealizado decimal
  | SaqueRealizado decimal
  | ValorDeveSerPositivo
  | LimiteSaquesExcedido int
  | ExcedeLimiteSaque decimal
  | SaldoInsuficiente decimal
  | ErroValor erro_valor
  | ErroInesperado excecao

definition DEPOSITO :: string where
  "DEPOSITO = ''DEP'' @ [CHR 0xD3] @ ''SITO''"

definition SAQUE :: string where
  "SAQUE = ''SAQUE''"

text \<open>
  \<^verbatim>\<open>__init__\<close>; \<open>limite_saque\<close> is the text \<^verbatim>\<open>str(limite_saque)\<close> of the argument, and the
  defaults are \<^verbatim>\<open>500\<close> and \<^verbatim>\<open>3\<close>. The balance starts as \<^verbatim>\<open>Decimal('0.00')\<close>.
\<close>

definition init :: "string \<Rightarrow> int \<Rightarrow> excecao + ContaBancaria" where
  "init limite limite_diario =
     (case Decimal limite of
        Inl e \<Rightarrow> Inl e
      | Inr l \<Rightarrow>
          Inr \<lparr>saldo = Finite False 0 (- 2), limite_saque = l,
               limite_saques_diarios = limite_diario, numero_saques = 0, historico = []\<rparr>)"

text \<open>The account of \<^verbatim>\<open>ContaBancaria()\<close>, that is \<open>init ''500'' 3\<close>.\<close>

definition conta_padrao :: ContaBancaria where
  "conta_padrao =
     \<lparr>saldo = Finite False 0 (- 2), limite_saque = Finite False 500 0,
      limite_saques_diarios = 3, numero_saques = 0, historico = []\<rparr>"

text \<open>
  \<^verbatim>\<open>_validar_valor\<close>: a \<^verbatim>\<open>str\<close> is stripped, its commas become periods and it must match
  the pattern; every argument is then converted by \<^verbatim>\<open>Decimal(str(valor))\<close>.
\<close>

definition validar_valor :: "pyvalor \<Rightarrow> excecao + decimal" where
  "validar_valor v =
     (case v of
        PyStr s \<Rightarrow>
          (let s' = replace (CHR '','') (CHR ''.'') (strip s)
           in if \<not> re_match s' then Inl (ValueError FormatoInvalido)
              else (case Decimal s' of
                      Inl e \<Rightarrow> Inl (ValueError NumeroInvalido)
                    | Inr d \<Rightarrow> Inr d))
      | PyOutro t \<Rightarrow>
          (case Decimal t of
             Inl e \<Rightarrow> Inl (ValueError NumeroInvalido)
           | Inr d \<Rightarrow> Inr d))"

text \<open>
  \<^verbatim>\<open>_adicionar_historico\<close>; \<open>agora\<close> is the text of \<^verbatim>\<open>datetime.now()\<close> at the call.
\<close>

definition adicionar_historico :: "ContaBancaria \<Rightarrow> string \<Rightarrow> decimal \<Rightarrow> string \<Rightarrow> ContaBancaria" where
  "adicionar_historico c t v agora =
     c\<lparr>historico := historico c @ [\<lparr>data = agora, tipo = t, valor = v\<rparr>]\<rparr>"

text \<open>
  The two handlers at the end of \<^verbatim>\<open>depositar\<close> and \<^verbatim>\<open>sacar\<close>: a \<^verbatim>\<open>ValueError\<close> gives its
  own message, any other exception the unexpected-error message.
\<close>

definition tratar :: "excecao \<Rightarrow> bool \<times> mensagem" where
  "tratar e = (case e of ValueError m \<Rightarrow> (False, ErroValor m) | _ \<Rightarrow> (False, ErroInesperado e))"

text \<open>
  \<^verbatim>\<open>depositar\<close> and \<^verbatim>\<open>sacar\<close> return the pair of the source and the account after the
  call. Where a statement raises, the account is the one reached at that statement.
\<close>

definition depositar :: "ContaBancaria \<Rightarrow> pyvalor \<Rightarrow> string \<Rightarrow> (bool \<times> mensagem) \<times> ContaBancaria" where
  "depositar c v agora =
     (case validar_valor v of
        Inl e \<Rightarrow> (tratar e, c)
      | Inr valor_decimal \<Rightarrow>
          (case dec_le valor_decimal zero_int of
             Inl e \<Rightarrow> (tratar e, c)
           | Inr True \<Rightarrow> ((False, ValorDeveSerPositivo), c)
           | Inr False \<Rightarrow>
               (case dec_add (saldo c) valor_decimal of
                  Inl e \<Rightarrow> (tratar e, c)
                | Inr novo \<Rightarrow>
                    ((True, DepositoRealizado valor_decimal),
                     adicionar_historico (c\<lparr>saldo := novo\<rparr>) DEPOSITO valor_decimal agora))))"

definition sacar :: "ContaBancaria \<Rightarrow> pyvalor \<Rightarrow> string \<Rightarrow> (bool \<times> mensagem) \<times> ContaBancaria" where
  "sacar c v agora =
     (case validar_valor v of
        Inl e \<Rightarrow> (tratar e, c)
      | Inr valor_decimal \<Rightarrow>
          (case dec_le valor_decimal zero_int of
             Inl e \<Rightarrow> (tratar e, c)
           | Inr True \<Rightarrow> ((False, ValorDeveSerPositivo), c)
           | Inr False \<Rightarrow>
               if numero_saques c \<ge> limite_saques_diarios c
               then ((False, LimiteSaquesExcedido (limite_saques_diarios c)), c)
               else
                 (case dec_gt valor_decimal (limite_saque c) of
                    Inl e \<Rightarrow> (tratar e, c)
                  | Inr True \<Rightarrow> ((False, ExcedeLimiteSaque (limite_saque c)), c)
                  | Inr False \<Rightarrow>
                      (case dec_gt valor_decimal (saldo c) of
                         Inl e \<Rightarrow> (tratar e, c)
                       | Inr True \<Rightarrow> ((False, SaldoInsuficiente (saldo c)), c)
                       | Inr False \<Rightarrow>
                           (case dec_sub (saldo c) valor_decimal of
                              Inl e \<Rightarrow> (tratar e, c)
                            | Inr novo \<Rightarrow>
                                ((True, SaqueRealizado valor_decimal),
                                 adicionar_historico
                                   (c\<lparr>saldo := novo, numero_saques := numero_saques c + 1\<rparr>)
                                   SAQUE valor_decimal agora))))))"

subsection \<open>The statement\<close>

definition nl :: char where
  "nl = CHR 0x0A"

definition TITULO :: string where
  "TITULO = ''EXTRATO BANC'' @ [CHR 0xC1] @ ''RIO''"

definition NENHUMA :: string where
  "NENHUMA = ''Nenhuma movimenta'' @ [CHR 0xE7, CHR 0xE3] @ ''o realizada.'' @ [nl]"

definition linha :: "operacao \<Rightarrow> string" where
  "linha op =
     data op @ '' | '' @ rjust 8 (tipo op) @ '' | R$ '' @ rjust 10 (format_2f (valor op)) @ [nl]"

text \<open>
  \<^verbatim>\<open>obter_extrato\<close> builds the text piece by piece, the transaction lines by a loop over
  \<^verbatim>\<open>self.historico\<close>. Like the other methods it is given with the account after the call;
  its body assigns to no attribute.
\<close>

definition obter_extrato :: "ContaBancaria \<Rightarrow> string \<times> ContaBancaria" where
  "obter_extrato c =
     (let linha_separadora = replicate 50 (CHR ''='');
          extrato = [nl] @ linha_separadora @ [nl];
          extrato = extrato @ center 50 TITULO @ [nl];
          extrato = extrato @ linha_separadora @ [nl];
          extrato = (if historico c = [] then extrato @ NENHUMA
                     else foldl (\<lambda>ex op. ex @ linha op) extrato (historico c));
          extrato = extrato @ linha_separadora @ [nl];
          extrato = extrato @ ''SALDO ATUAL: R$ '' @ rjust 10 (format_2f (saldo c)) @ [nl];
          extrato = extrato @ ''SAQUES REALIZADOS HOJE: '' @ str_int (numero_saques c) @ ''/'' @
                    str_int (limite_saques_diarios c) @ [nl];
          extrato = extrato @ linha_separadora @ [nl]
      in (extrato, c))"

section \<open>Sequences of calls\<close>

datatype chamada = Depositar pyvalor string | Sacar pyvalor string | ObterExtrato

fun aplicar :: "ContaBancaria \<Rightarrow> chamada \<Rightarrow> ContaBancaria" where
  "aplicar c (Depositar v agora) = snd (depositar c v agora)"
| "aplicar c (Sacar v agora) = snd (sacar c v agora)"
| "aplicar c ObterExtrato = snd (obter_extrato c)"

definition executar :: "ContaBancaria \<Rightarrow> chamada list \<Rightarrow> ContaBancaria" where
  "executar c cs = foldl aplicar c cs"

section \<open>Notions used to state the properties\<close>




text \<open>
  A finite Decimal of at most two fraction digits (exponent at least \<open>-2\<close>) is a whole
  number of hundredths, its \<open>centavos\<close>. \<open>total t h\<close> adds the hundredths of the
  entries of kind \<open>t\<close> in a history.
\<close>

definition duas_casas :: "decimal \<Rightarrow> bool" where
  "duas_casas d = (case d of Finite s c e \<Rightarrow> - 2 \<le> e | _ \<Rightarrow> False)"

definition centavos :: "decimal \<Rightarrow> int" where
  "centavos d = (case d of Finite s c e \<Rightarrow> alinhado s c e (- 2) | _ \<Rightarrow> 0)"

definition total :: "string \<Rightarrow> operacao list \<Rightarrow> int" where
  "total t h = sum_list (map (\<lambda>op. centavos (valor op)) (filter (\<lambda>op. tipo op = t) h))"

text \<open>A Decimal that is a number or an infinity and carries no minus sign.\<close>

definition nao_negativo :: "decimal \<Rightarrow> bool" where
  "nao_negativo d = (case d of Finite s c e \<Rightarrow> \<not> s | Infinity s \<Rightarrow> \<not> s | NaN s sig \<Rightarrow> False)"

text \<open>The number of calls of \<^verbatim>\<open>sacar\<close> in a sequence that return \<^verbatim>\<open>True\<close>.\<close>

fun saques_realizados :: "ContaBancaria \<Rightarrow> chamada list \<Rightarrow> nat" where
  "saques_realizados c [] = 0"
| "saques_realizados c (Sacar v agora # cs) =
     (if fst (fst (sacar c v agora)) then 1 else 0) + saques_realizados (snd (sacar c v agora)) cs"
| "saques_realizados c (x # cs) = saques_realizados (aplicar c x) cs"



text \<open>
  A Decimal as the context delivers it: an infinity, a NaN, zero, or a coefficient of
  at most 28 digits whose adjusted exponent does not exceed \<open>Emax\<close>.
\<close>

definition no_contexto :: "decimal \<Rightarrow> bool" where
  "no_contexto d =
     (case d of
        Finite s c e \<Rightarrow> c = 0 \<or> (c < 10 ^ 28 \<and> int (ndigits c) + e - prec \<le> Etop)
      | _ \<Rightarrow> True)"


text \<open>
  Three properties of an account and its history: every recorded amount passed the
  positivity check; every recorded amount has at most two fraction digits and the
  recorded deposits stay below \<open>10^28\<close> hundredths, so that no sum needs more than
  28 digits; the balance is the exact difference, in hundredths, between the recorded
  deposits and the recorded withdrawals.
\<close>

definition valores_positivos :: "operacao list \<Rightarrow> bool" where
  "valores_positivos h = list_all (\<lambda>op. dec_le (valor op) zero_int = Inr False) h"

definition sem_arredondamento :: "operacao list \<Rightarrow> bool" where
  "sem_arredondamento h =
     (list_all (\<lambda>op. duas_casas (valor op)) h \<and> total DEPOSITO h < 10 ^ 28)"

definition saldo_exato :: "ContaBancaria \<Rightarrow> bool" where
  "saldo_exato c =
     (saldo c = Finite False (nat (total DEPOSITO (historico c) - total SAQUE (historico c))) (- 2) \<and>
      0 \<le> total SAQUE (historico c) \<and>
      total SAQUE (historico c) \<le> total DEPOSITO (historico c))"

section \<open>Evaluation\<close>

lemmas texto_defs = validar_valor_def strip_def replace_def re_match_def isdigit_def isspace_def
  fim_def Decimal_def numero_def especial_def expoente_def nat_de_digitos_def valor_digito_def
  minuscula_def Let_def

lemmas decimal_defs = alinhado_def dec_fix_def arredondar_def ndigits.simps prec_def Etiny_def
  Etop_def Emin_def Emax_def dec_le_def dec_gt_def dec_sub_def eh_nan_def zero_int_def

lemmas conta_defs = depositar_def sacar_def adicionar_historico_def tratar_def conta_padrao_def
  init_def executar_def

lemma init_padrao: "init ''500'' 3 = Inr conta_padrao"
  by (simp add: conta_defs texto_defs)

section \<open>Validated text\<close>




















section \<open>Signs and exact sums\<close>

lemma ndigits_limite: "n < 10 ^ k \<Longrightarrow> 0 < k \<Longrightarrow> ndigits n \<le> k"
proof (induction n arbitrary: k rule: ndigits.induct)
  case (1 n)
  show ?case
  proof (cases "n < 10")
    case True
    then show ?thesis using "1.prems" by (simp add: ndigits.simps)
  next
    case False
    obtain j where k: "k = Suc j" using "1.prems"(2) by (cases k) auto
    have "j \<noteq> 0" using False "1.prems"(1) k by (cases j) auto
    moreover have "n div 10 < 10 ^ j" using "1.prems"(1) k by (simp add: less_mult_imp_div_less)
    ultimately have "ndigits (n div 10) \<le> j" using "1.IH" [OF False] by simp
    then show ?thesis using False k by (simp add: ndigits.simps)
  qed
qed

lemma dec_fix_exato:
  assumes "c < 10 ^ 28" and "Etiny \<le> e" and "e \<le> Etop"
  shows "dec_fix s c e = Inr (Finite s c e)"
proof (cases "c = 0")
  case True
  then show ?thesis using assms(2,3) by (simp add: dec_fix_def Etop_def Etiny_def Emin_def Emax_def prec_def)
next
  case False
  have n: "ndigits c \<le> 28" using ndigits_limite [OF assms(1)] by simp
  have a: "\<not> Etop < int (ndigits c) + e - prec" using n assms(3) by (simp add: prec_def)
  have b: "\<not> e < max (int (ndigits c) + e - prec) Etiny" using n assms(2) by (simp add: prec_def)
  show ?thesis by (simp add: dec_fix_def Let_def False a b)
qed

lemma dec_fix_sinal: "dec_fix s c e = Inr d \<Longrightarrow> \<exists>c' e'. d = Finite s c' e'"
  by (auto simp: dec_fix_def Let_def split: if_splits)

lemma dec_fix_nao_negativo: "dec_fix False c e = Inr d \<Longrightarrow> nao_negativo d"
  by (auto dest: dec_fix_sinal simp: nao_negativo_def)

lemma positivo_forma:
  assumes "dec_le d zero_int = Inr False"
  shows "(\<exists>c e. d = Finite False c e \<and> 0 < c) \<or> d = Infinity False"
proof (cases d)
  case (Finite s c e)
  then show ?thesis using assms
    by (cases s) (auto simp: dec_le_def zero_int_def alinhado_def Let_def split: if_splits)
next
  case (Infinity s)
  then show ?thesis using assms by (auto simp: dec_le_def zero_int_def split: if_splits)
next
  case (NaN s sig)
  then show ?thesis using assms by (simp add: dec_le_def zero_int_def)
qed

lemma alinhado_pos: "0 < c \<Longrightarrow> 0 < alinhado False c e m"
  by (simp add: alinhado_def)

lemma alinhado_nonneg: "0 \<le> alinhado False c e m"
  by (simp add: alinhado_def)

lemma dec_add_nao_negativo:
  assumes "nao_negativo a" and "dec_le d zero_int = Inr False" and "dec_add a d = Inr novo"
  shows "nao_negativo novo"
proof -
  from positivo_forma [OF assms(2)] consider c e where "d = Finite False c e" "0 < c"
    | "d = Infinity False" by blast
  then show ?thesis
  proof cases
    case 1
    show ?thesis
    proof (cases a)
      case (Finite s k es)
      then have s: "\<not> s" using assms(1) by (simp add: nao_negativo_def)
      let ?t = "alinhado False k es (min es e) + alinhado False c e (min es e)"
      have t: "0 < ?t"
        using alinhado_pos [OF 1(2), of e "min es e"] alinhado_nonneg [of k es "min es e"]
        by linarith
      then have "dec_fix False (nat ?t) (min es e) = Inr novo"
        using assms(3) Finite s 1 by (simp add: Let_def)
      then show ?thesis by (rule dec_fix_nao_negativo)
    next
      case (Infinity s)
      then show ?thesis using assms(1,3) 1 by (auto simp: nao_negativo_def)
    next
      case (NaN s sig)
      then show ?thesis using assms(1) by (simp add: nao_negativo_def)
    qed
  next
    case 2
    then show ?thesis using assms(1,3)
      by (cases a) (auto simp: nao_negativo_def split: if_splits)
  qed
qed

lemma dec_sub_nao_negativo:
  assumes "nao_negativo a" and "dec_le d zero_int = Inr False" and "dec_gt d a = Inr False"
    and "dec_sub a d = Inr novo"
  shows "nao_negativo novo"
proof -
  from positivo_forma [OF assms(2)] consider c e where "d = Finite False c e" "0 < c"
    | "d = Infinity False" by blast
  then show ?thesis
  proof cases
    case 1
    show ?thesis
    proof (cases a)
      case (Finite s k es)
      then have s: "\<not> s" using assms(1) by (simp add: nao_negativo_def)
      have le: "alinhado False c e (min e es) \<le> alinhado False k es (min e es)"
        using assms(3) Finite s 1 by (auto simp: dec_gt_def Let_def split: if_splits)
      have m: "min es e = min e es" by simp
      have neg: "\<And>j. alinhado True c e j = - alinhado False c e j"
        by (simp add: alinhado_def)
      let ?t = "alinhado False k es (min es e) + alinhado True c e (min es e)"
      have t: "0 \<le> ?t" using le by (simp add: neg m)
      have "dec_fix False (nat ?t) (min es e) = Inr novo"
      proof (cases "?t = 0")
        case True
        then show ?thesis using assms(4) Finite s 1 by (simp add: dec_sub_def eh_nan_def Let_def)
      next
        case False
        then have "\<not> ?t < 0" "\<bar>?t\<bar> = ?t" using t by simp_all
        then show ?thesis using assms(4) Finite s 1 False by (simp add: dec_sub_def eh_nan_def Let_def)
      qed
      then show ?thesis by (rule dec_fix_nao_negativo)
    next
      case (Infinity s)
      then show ?thesis using assms(1,4) 1 by (auto simp: nao_negativo_def dec_sub_def eh_nan_def)
    next
      case (NaN s sig)
      then show ?thesis using assms(1) by (simp add: nao_negativo_def)
    qed
  next
    case 2
    then show ?thesis using assms(1,3,4)
      by (cases a) (auto simp: nao_negativo_def dec_sub_def eh_nan_def dec_gt_def split: if_splits)
  qed
qed

lemma depositar_casos:
  "snd (depositar c v agora) = c \<and> \<not> fst (fst (depositar c v agora)) \<or>
   (\<exists>d novo. validar_valor v = Inr d \<and> dec_le d zero_int = Inr False \<and>
      dec_add (saldo c) d = Inr novo \<and>
      depositar c v agora = ((True, DepositoRealizado d),
        c\<lparr>saldo := novo, historico := historico c @ [\<lparr>data = agora, tipo = DEPOSITO, valor = d\<rparr>]\<rparr>))"
  by (auto simp: depositar_def tratar_def adicionar_historico_def
      split: sum.splits bool.splits excecao.splits)

lemma sacar_casos:
  "snd (sacar c v agora) = c \<and> \<not> fst (fst (sacar c v agora)) \<or>
   (\<exists>d novo. validar_valor v = Inr d \<and> dec_le d zero_int = Inr False \<and>
      numero_saques c < limite_saques_diarios c \<and>
      dec_gt d (limite_saque c) = Inr False \<and> dec_gt d (saldo c) = Inr False \<and>
      dec_sub (saldo c) d = Inr novo \<and>
      sacar c v agora = ((True, SaqueRealizado d),
        c\<lparr>saldo := novo, numero_saques := numero_saques c + 1,
          historico := historico c @ [\<lparr>data = agora, tipo = SAQUE, valor = d\<rparr>]\<rparr>))"
  by (auto simp: sacar_def tratar_def adicionar_historico_def
      split: sum.splits bool.splits excecao.splits)

section \<open>The counter and the limits\<close>

lemma depositar_contador:
  "numero_saques (snd (depositar c v agora)) = numero_saques c \<and>
   limite_saques_diarios (snd (depositar c v agora)) = limite_saques_diarios c \<and>
   limite_saque (snd (depositar c v agora)) = limite_saque c"
  by (simp add: depositar_def adicionar_historico_def split: sum.splits bool.splits)

lemma sacar_contador:
  "numero_saques (snd (sacar c v agora)) =
     (if fst (fst (sacar c v agora)) then numero_saques c + 1 else numero_saques c) \<and>
   limite_saques_diarios (snd (sacar c v agora)) = limite_saques_diarios c \<and>
   limite_saque (snd (sacar c v agora)) = limite_saque c"
  by (simp add: sacar_def adicionar_historico_def tratar_def split: sum.splits bool.splits excecao.splits)

lemma sacar_recusa:
  "limite_saques_diarios c \<le> numero_saques c \<Longrightarrow> \<not> fst (fst (sacar c v agora))"
  by (simp add: sacar_def tratar_def split: sum.splits bool.splits excecao.splits)

lemma sacar_abaixo_do_limite:
  "fst (fst (sacar c v agora)) \<Longrightarrow> numero_saques c < limite_saques_diarios c"
  using sacar_recusa [of c v agora] by (cases "limite_saques_diarios c \<le> numero_saques c") simp_all

lemma obter_extrato_snd: "snd (obter_extrato c) = c"
  by (simp add: obter_extrato_def Let_def)

lemma aplicar_contador:
  "limite_saques_diarios (aplicar c x) = limite_saques_diarios c \<and>
   limite_saque (aplicar c x) = limite_saque c \<and>
   numero_saques c \<le> numero_saques (aplicar c x) \<and>
   (numero_saques c \<le> limite_saques_diarios c \<longrightarrow>
      numero_saques (aplicar c x) \<le> limite_saques_diarios c)"
proof (cases x)
  case (Depositar v agora)
  then show ?thesis by (simp add: depositar_contador)
next
  case (Sacar v agora)
  then show ?thesis using sacar_abaixo_do_limite [of c v agora] by (auto simp: sacar_contador)
next
  case ObterExtrato
  then show ?thesis by (simp add: obter_extrato_snd)
qed

lemma executar_snoc: "executar c (cs @ [x]) = aplicar (executar c cs) x"
  by (simp add: executar_def)

lemma executar_contador:
  "limite_saques_diarios (executar c cs) = limite_saques_diarios c \<and>
   limite_saque (executar c cs) = limite_saque c \<and>
   numero_saques c \<le> numero_saques (executar c cs) \<and>
   (numero_saques c \<le> limite_saques_diarios c \<longrightarrow>
      numero_saques (executar c cs) \<le> limite_saques_diarios c)"
proof (induction cs rule: rev_induct)
  case Nil
  then show ?case by (simp add: executar_def)
next
  case (snoc x cs)
  then show ?case using aplicar_contador [of "executar c cs" x]
    by (auto simp: executar_snoc)
qed

lemma init_campos:
  "init l n = Inr c \<Longrightarrow>
   saldo c = Finite False 0 (- 2) \<and> numero_saques c = 0 \<and> limite_saques_diarios c = n \<and>
   historico c = [] \<and> Decimal l = Inr (limite_saque c)"
  by (auto simp: init_def split: sum.splits)

section \<open>Parsing of amounts\<close>

text \<open>
  C4. The texts \<^verbatim>\<open>"10.5"\<close> and \<^verbatim>\<open>"10,5"\<close> are validated to the same Decimal, \<^verbatim>\<open>10.5\<close>
  (coefficient 105, exponent -1), and each of \<^verbatim>\<open>"10.555"\<close>, \<^verbatim>\<open>"-5"\<close>, \<^verbatim>\<open>"abc"\<close> and
  \<^verbatim>\<open>""\<close> is refused with the invalid-format \<^verbatim>\<open>ValueError\<close>.
\<close>

theorem parsing_examples:
  "validar_valor (PyStr ''10.5'') = Inr (Finite False 105 (- 1)) \<and>
   validar_valor (PyStr ''10,5'') = validar_valor (PyStr ''10.5'') \<and>
   validar_valor (PyStr ''10.555'') = Inl (ValueError FormatoInvalido) \<and>
   validar_valor (PyStr ''-5'') = Inl (ValueError FormatoInvalido) \<and>
   validar_valor (PyStr ''abc'') = Inl (ValueError FormatoInvalido) \<and>
   validar_valor (PyStr '''') = Inl (ValueError FormatoInvalido)"
  by (simp add: texto_defs)

section \<open>Failure leaves the account as it was\<close>



section \<open>The withdrawal counter\<close>



section \<open>The statement\<close>


lemma aplicar_historico:
  "historico (aplicar c x) = historico c \<or> (\<exists>op. historico (aplicar c x) = historico c @ [op])"
  by (cases x) (auto simp: depositar_def sacar_def tratar_def adicionar_historico_def obter_extrato_snd
      split: sum.splits bool.splits excecao.splits)


section \<open>The scenario with the default limits\<close>

text \<open>
  C9. On a fresh account with the default limits (500 for each withdrawal, 3
  withdrawals), depositing \<^verbatim>\<open>"100.00"\<close> succeeds and leaves the balance \<^verbatim>\<open>100.00\<close>;
  withdrawing \<^verbatim>\<open>"600"\<close> is refused for exceeding the limit of each withdrawal;
  withdrawing \<^verbatim>\<open>"100.00"\<close> succeeds and leaves \<^verbatim>\<open>0.00\<close>; withdrawing \<^verbatim>\<open>"0.01"\<close> is
  refused for insufficient balance.
\<close>

theorem default_scenario:
  "init ''500'' 3 = Inr conta_padrao \<and>
   fst (depositar conta_padrao (PyStr ''100.00'') t1) =
     (True, DepositoRealizado (Finite False 10000 (- 2))) \<and>
   saldo (executar conta_padrao [Depositar (PyStr ''100.00'') t1]) = Finite False 10000 (- 2) \<and>
   sacar (executar conta_padrao [Depositar (PyStr ''100.00'') t1]) (PyStr ''600'') t2 =
     ((False, ExcedeLimiteSaque (Finite False 500 0)),
      executar conta_padrao [Depositar (PyStr ''100.00'') t1]) \<and>
   fst (sacar (executar conta_padrao [Depositar (PyStr ''100.00'') t1, Sacar (PyStr ''600'') t2])
          (PyStr ''100.00'') t3) = (True, SaqueRealizado (Finite False 10000 (- 2))) \<and>
   saldo (executar conta_padrao [Depositar (PyStr ''100.00'') t1, Sacar (PyStr ''600'') t2,
          Sacar (PyStr ''100.00'') t3]) = Finite False 0 (- 2) \<and>
   sacar (executar conta_padrao [Depositar (PyStr ''100.00'') t1, Sacar (PyStr ''600'') t2,
          Sacar (PyStr ''100.00'') t3]) (PyStr ''0.01'') t4 =
     ((False, SaldoInsuficiente (Finite False 0 (- 2))),
      executar conta_padrao [Depositar (PyStr ''100.00'') t1, Sacar (PyStr ''600'') t2,
          Sacar (PyStr ''100.00'') t3])"
  by (simp add: conta_defs texto_defs decimal_defs)

section \<open>Arguments that are not text\<close>


section \<open>The daily limit\<close>

lemma executar_Cons: "executar c (x # cs) = executar (aplicar c x) cs"
  by (simp add: executar_def)

lemma executar_saques:
  "numero_saques (executar c cs) = numero_saques c + int (saques_realizados c cs)"
proof (induction cs arbitrary: c)
  case Nil
  then show ?case by (simp add: executar_def)
next
  case (Cons x cs)
  show ?case
  proof (cases x)
    case (Depositar v agora)
    then show ?thesis using Cons [of "aplicar c x"]
      by (simp add: executar_Cons depositar_contador)
  next
    case (Sacar v agora)
    then show ?thesis using Cons [of "aplicar c x"]
      by (simp add: executar_Cons sacar_contador)
  next
    case ObterExtrato
    then show ?thesis using Cons [of "aplicar c x"]
      by (simp add: executar_Cons obter_extrato_snd)
  qed
qed

lemma sacar_limite_atingido:
  assumes "validar_valor v = Inr d" and "dec_le d zero_int = Inr False"
    and "limite_saques_diarios c \<le> numero_saques c"
  shows "sacar c v agora = ((False, LimiteSaquesExcedido (limite_saques_diarios c)), c)"
  using assms by (simp add: sacar_def)

lemma tres_saques:
  "executar conta_padrao
     [Depositar (PyStr ''10'') ''01/01/2024 10:00:00'', Sacar (PyStr ''1'') ''01/01/2024 10:00:01'',
      Sacar (PyStr ''1'') ''01/01/2024 10:00:02'', Sacar (PyStr ''1'') ''01/01/2024 10:00:03''] =
   \<lparr>saldo = Finite False 700 (- 2), limite_saque = Finite False 500 0, limite_saques_diarios = 3,
    numero_saques = 3,
    historico =
      [\<lparr>data = ''01/01/2024 10:00:00'', tipo = DEPOSITO, valor = Finite False 10 0\<rparr>,
       \<lparr>data = ''01/01/2024 10:00:01'', tipo = SAQUE, valor = Finite False 1 0\<rparr>,
       \<lparr>data = ''01/01/2024 10:00:02'', tipo = SAQUE, valor = Finite False 1 0\<rparr>,
       \<lparr>data = ''01/01/2024 10:00:03'', tipo = SAQUE, valor = Finite False 1 0\<rparr>]\<rparr>"
  by (simp add: conta_defs texto_defs decimal_defs)

lemma tres_saques_contados:
  "saques_realizados conta_padrao
     [Depositar (PyStr ''10'') ''01/01/2024 10:00:00'', Sacar (PyStr ''1'') ''01/01/2024 10:00:01'',
      Sacar (PyStr ''1'') ''01/01/2024 10:00:02'', Sacar (PyStr ''1'') ''01/01/2024 10:00:03''] = 3"
  by (simp add: conta_defs texto_defs decimal_defs)

text \<open>
  C5, for the amounts that pass the two earlier checks. Once the counter has reached
  the daily limit, \<^verbatim>\<open>sacar\<close> with any argument that validates to a positive amount
  returns the daily-limit message and leaves the account as it was, whatever the
  amount, the limit of each withdrawal and the balance. In particular this is the
  answer after \<open>n\<close> successful withdrawals on an account created with the daily limit
  \<open>n\<close>.
\<close>

theorem daily_limit_refuses_positive_amounts:
  assumes "validar_valor v = Inr d" and "dec_le d zero_int = Inr False"
  shows "(limite_saques_diarios c \<le> numero_saques c \<longrightarrow>
            sacar c v agora = ((False, LimiteSaquesExcedido (limite_saques_diarios c)), c)) \<and>
         (init l n = Inr c0 \<and> n \<le> int (saques_realizados c0 cs) \<longrightarrow>
            sacar (executar c0 cs) v agora = ((False, LimiteSaquesExcedido n), executar c0 cs))"
proof (intro conjI impI)
  assume "limite_saques_diarios c \<le> numero_saques c"
  then show "sacar c v agora = ((False, LimiteSaquesExcedido (limite_saques_diarios c)), c)"
    using assms by (rule sacar_limite_atingido [rotated 2])
next
  assume a: "init l n = Inr c0 \<and> n \<le> int (saques_realizados c0 cs)"
  then have "numero_saques c0 = 0" "limite_saques_diarios c0 = n"
    using init_campos [of l n c0] by simp_all
  then have "limite_saques_diarios (executar c0 cs) \<le> numero_saques (executar c0 cs)"
    using a executar_saques [of c0 cs] executar_contador [of c0 cs] by simp
  then have "sacar (executar c0 cs) v agora =
      ((False, LimiteSaquesExcedido (limite_saques_diarios (executar c0 cs))), executar c0 cs)"
    using assms by (rule sacar_limite_atingido [rotated 2])
  then show "sacar (executar c0 cs) v agora = ((False, LimiteSaquesExcedido n), executar c0 cs)"
    using executar_contador [of c0 cs] \<open>limite_saques_diarios c0 = n\<close> by simp
qed

theorem daily_limit_refuses_positive_amounts_witness:
  "validar_valor (PyStr ''0.01'') = Inr (Finite False 1 (- 2)) \<and>
   dec_le (Finite False 1 (- 2)) zero_int = Inr False \<and>
   limite_saques_diarios (conta_padrao\<lparr>numero_saques := 3\<rparr>) \<le>
     numero_saques (conta_padrao\<lparr>numero_saques := 3\<rparr>) \<and>
   sacar (conta_padrao\<lparr>numero_saques := 3\<rparr>) (PyStr ''0.01'') ''01/01/2024 10:00:04'' =
     ((False, LimiteSaquesExcedido 3), conta_padrao\<lparr>numero_saques := 3\<rparr>) \<and>
   init ''500'' 3 = Inr conta_padrao \<and>
   3 \<le> int (saques_realizados conta_padrao
     [Depositar (PyStr ''10'') ''01/01/2024 10:00:00'', Sacar (PyStr ''1'') ''01/01/2024 10:00:01'',
      Sacar (PyStr ''1'') ''01/01/2024 10:00:02'', Sacar (PyStr ''1'') ''01/01/2024 10:00:03'']) \<and>
   fst (sacar (executar conta_padrao
     [Depositar (PyStr ''10'') ''01/01/2024 10:00:00'', Sacar (PyStr ''1'') ''01/01/2024 10:00:01'',
      Sacar (PyStr ''1'') ''01/01/2024 10:00:02'', Sacar (PyStr ''1'') ''01/01/2024 10:00:03''])
      (PyStr ''0.01'') ''01/01/2024 10:00:04'') = (False, LimiteSaquesExcedido 3)"
proof -
  have v: "validar_valor (PyStr ''0.01'') = Inr (Finite False 1 (- 2))"
    by (simp add: texto_defs)
  have p: "dec_le (Finite False 1 (- 2)) zero_int = Inr False"
    by (simp add: decimal_defs)
  show ?thesis
    using daily_limit_refuses_positive_amounts [OF v p,
      of "conta_padrao\<lparr>numero_saques := 3\<rparr>" "''01/01/2024 10:00:04''" "''500''" 3 conta_padrao
      "[Depositar (PyStr ''10'') ''01/01/2024 10:00:00'', Sacar (PyStr ''1'') ''01/01/2024 10:00:01'',
        Sacar (PyStr ''1'') ''01/01/2024 10:00:02'', Sacar (PyStr ''1'') ''01/01/2024 10:00:03'']"]
      v p init_padrao tres_saques_contados
    by (simp add: conta_padrao_def)
qed

text \<open>
  C5 does not hold for every amount. After three successful withdrawals on the default
  account the counter has reached the limit, and yet \<^verbatim>\<open>sacar("0")\<close> returns the
  must-be-positive message and \<^verbatim>\<open>sacar("abc")\<close> the invalid-format message: both checks
  come before the daily limit.
\<close>

theorem daily_limit_counterexample:
  "limite_saques_diarios (executar conta_padrao
     [Depositar (PyStr ''10'') ''01/01/2024 10:00:00'', Sacar (PyStr ''1'') ''01/01/2024 10:00:01'',
      Sacar (PyStr ''1'') ''01/01/2024 10:00:02'', Sacar (PyStr ''1'') ''01/01/2024 10:00:03'']) \<le>
   numero_saques (executar conta_padrao
     [Depositar (PyStr ''10'') ''01/01/2024 10:00:00'', Sacar (PyStr ''1'') ''01/01/2024 10:00:01'',
      Sacar (PyStr ''1'') ''01/01/2024 10:00:02'', Sacar (PyStr ''1'') ''01/01/2024 10:00:03'']) \<and>
   fst (sacar (executar conta_padrao
     [Depositar (PyStr ''10'') ''01/01/2024 10:00:00'', Sacar (PyStr ''1'') ''01/01/2024 10:00:01'',
      Sacar (PyStr ''1'') ''01/01/2024 10:00:02'', Sacar (PyStr ''1'') ''01/01/2024 10:00:03''])
      (PyStr ''0'') ''01/01/2024 10:00:04'') = (False, ValorDeveSerPositivo) \<and>
   fst (sacar (executar conta_padrao
     [Depositar (PyStr ''10'') ''01/01/2024 10:00:00'', Sacar (PyStr ''1'') ''01/01/2024 10:00:01'',
      Sacar (PyStr ''1'') ''01/01/2024 10:00:02'', Sacar (PyStr ''1'') ''01/01/2024 10:00:03''])
      (PyStr ''abc'') ''01/01/2024 10:00:04'') = (False, ErroValor FormatoInvalido)"
  unfolding tres_saques by (simp add: sacar_def tratar_def texto_defs decimal_defs)

section \<open>The format of text amounts\<close>




section \<open>Digits and the range of the context\<close>

lemma ndigits_pos: "0 < ndigits n"
  by (subst ndigits.simps) simp

lemma ndigits_maior: "n < 10 ^ ndigits n"
proof (induction n rule: ndigits.induct)
  case (1 n)
  show ?case
  proof (cases "n < 10")
    case True
    then show ?thesis by (simp add: ndigits.simps)
  next
    case False
    have "n div 10 < 10 ^ ndigits (n div 10)" using "1.IH" [OF False] .
    then have "n < 10 * 10 ^ ndigits (n div 10)" by (simp add: div_less_iff_less_mult)
    then show ?thesis using False by (simp add: ndigits.simps [of n])
  qed
qed

lemma ndigits_menor: "0 < n \<Longrightarrow> 10 ^ (ndigits n - 1) \<le> n"
proof (induction n rule: ndigits.induct)
  case (1 n)
  show ?case
  proof (cases "n < 10")
    case True
    then show ?thesis using "1.prems" by (simp add: ndigits.simps)
  next
    case False
    then have "0 < n div 10" by (simp add: div_greater_zero_iff)
    then have "10 ^ (ndigits (n div 10) - 1) \<le> n div 10" using "1.IH" [OF False] by simp
    then have "10 * 10 ^ (ndigits (n div 10) - 1) \<le> n" by simp
    moreover have "ndigits n - 1 = Suc (ndigits (n div 10) - 1)"
      using False ndigits_pos [of "n div 10"] by (simp add: ndigits.simps [of n])
    ultimately show ?thesis by simp
  qed
qed

lemma ndigits_iff: "0 < k \<Longrightarrow> ndigits n \<le> k \<longleftrightarrow> n < 10 ^ k"
proof
  assume "0 < k" "ndigits n \<le> k"
  then have "(10::nat) ^ ndigits n \<le> 10 ^ k" by (simp add: power_increasing)
  then show "n < 10 ^ k" using ndigits_maior [of n] by linarith
next
  assume "0 < k" "n < 10 ^ k"
  then show "ndigits n \<le> k" by (simp add: ndigits_limite)
qed



lemma arredondar_limites: "c div 10 ^ k \<le> arredondar c k \<and> arredondar c k \<le> c div 10 ^ k + 1"
  by (simp add: arredondar_def Let_def)

lemma Etiny_Etop: "Etiny < Etop"
  by (simp add: Etiny_def Etop_def Emin_def Emax_def prec_def)

lemma dec_fix_no_contexto:
  assumes "dec_fix s c e = Inr d"
  shows "no_contexto d"
proof (cases "c = 0")
  case True
  then show ?thesis using assms by (auto simp: dec_fix_def no_contexto_def)
next
  case False
  define x0 where "x0 = int (ndigits c) + e - prec"
  define xm where "xm = max x0 Etiny"
  have x0: "\<not> Etop < x0" using assms False by (auto simp: dec_fix_def x0_def Let_def split: if_splits)
  then have xm: "xm \<le> Etop" using Etiny_Etop by (simp add: xm_def)
  show ?thesis
  proof (cases "e < xm")
    case True
    define j where "j = nat (xm - e)"
    define coeff where "coeff = arredondar c j"
    have j: "int (ndigits c) \<le> int j + 28" using True by (simp add: j_def xm_def x0_def prec_def)
    then have "ndigits c \<le> j + 28" by linarith
    then have "(10::nat) ^ ndigits c \<le> 10 ^ (j + 28)" by (simp add: power_increasing)
    then have "c < 10 ^ 28 * 10 ^ j" using ndigits_maior [of c] by (simp add: power_add mult.commute)
    then have "c div 10 ^ j < 10 ^ 28" by (simp add: less_mult_imp_div_less)
    then have coeff: "coeff \<le> 10 ^ 28" using arredondar_limites [of c j] by (simp add: coeff_def)
    have d: "d = Finite s (if int (ndigits coeff) > prec then coeff div 10 else coeff)
                        (if int (ndigits coeff) > prec then xm + 1 else xm)"
      and ok: "\<not> Etop < (if int (ndigits coeff) > prec then xm + 1 else xm)"
      using assms False x0 True
      by (auto simp: dec_fix_def Let_def x0_def [symmetric] xm_def [symmetric] j_def [symmetric]
          coeff_def [symmetric] split: if_splits)
    show ?thesis
    proof (cases "int (ndigits coeff) > prec")
      case True
      have "coeff div 10 \<le> 10 ^ 27" using coeff by simp
      then have lt: "coeff div 10 < 10 ^ 28" by simp
      then have "ndigits (coeff div 10) \<le> 28" by (simp add: ndigits_limite)
      then show ?thesis using True d ok lt by (simp add: no_contexto_def prec_def)
    next
      case False
      then have n: "ndigits coeff \<le> 28" by (simp add: prec_def)
      then have "coeff < 10 ^ 28" by (simp add: ndigits_iff)
      then show ?thesis using False d ok n by (simp add: no_contexto_def prec_def)
    qed
  next
    case False
    then have d: "d = Finite s c e" using assms \<open>c \<noteq> 0\<close> x0
      by (auto simp: dec_fix_def Let_def x0_def [symmetric] xm_def [symmetric] split: if_splits)
    have "x0 \<le> e" using False by (simp add: xm_def)
    then have "ndigits c \<le> 28" by (simp add: x0_def prec_def)
    then have "c < 10 ^ 28" by (simp add: ndigits_iff)
    then show ?thesis using d x0 by (simp add: no_contexto_def x0_def)
  qed
qed


section \<open>The order of the checks of a withdrawal\<close>

lemma dec_add_no_contexto: "dec_add a b = Inr d \<Longrightarrow> no_contexto d"
  by (cases a; cases b)
    (auto simp: Let_def no_contexto_def split: if_splits decimal.splits bool.splits
      dest: dec_fix_no_contexto)

lemma dec_sub_no_contexto: "dec_sub a b = Inr d \<Longrightarrow> no_contexto d"
  by (auto simp: dec_sub_def split: if_splits dest: dec_add_no_contexto)


lemma aplicar_saldo:
  assumes "nao_negativo (saldo c)" and "no_contexto (saldo c)"
  shows "nao_negativo (saldo (aplicar c x)) \<and> no_contexto (saldo (aplicar c x))"
proof (cases x)
  case (Depositar v agora)
  then show ?thesis
    using assms depositar_casos [of c v agora] dec_add_nao_negativo dec_add_no_contexto
    by auto
next
  case (Sacar v agora)
  then show ?thesis
    using assms sacar_casos [of c v agora] dec_sub_nao_negativo dec_sub_no_contexto
    by auto
next
  case ObterExtrato
  then show ?thesis using assms by (simp add: obter_extrato_snd)
qed

lemma executar_saldo:
  assumes "init l n = Inr c0"
  shows "nao_negativo (saldo (executar c0 cs)) \<and> no_contexto (saldo (executar c0 cs))"
proof (induction cs rule: rev_induct)
  case Nil
  then show ?case using init_campos [OF assms]
    by (simp add: executar_def nao_negativo_def no_contexto_def)
next
  case (snoc x cs)
  then show ?case using aplicar_saldo [of "executar c0 cs" x] by (simp add: executar_snoc)
qed







section \<open>The balance and the history\<close>

lemma total_snoc:
  "total t (h @ [op]) = total t h + (if tipo op = t then centavos (valor op) else 0)"
  by (simp add: total_def)

lemma tipos_distintos: "DEPOSITO \<noteq> SAQUE"
  by (simp add: DEPOSITO_def SAQUE_def)

lemma centavos_positivo:
  assumes "dec_le d zero_int = Inr False"
  shows "0 \<le> centavos d \<and> (duas_casas d \<longrightarrow> (\<exists>m e. d = Finite False m e \<and> 0 < m \<and> - 2 \<le> e))"
  using positivo_forma [OF assms]
  by (auto simp: centavos_def duas_casas_def alinhado_def)

lemma aplicar_positivos:
  "valores_positivos (historico c) \<Longrightarrow> valores_positivos (historico (aplicar c x))"
proof (cases x)
  case (Depositar v agora)
  assume "valores_positivos (historico c)"
  then show ?thesis using Depositar depositar_casos [of c v agora]
    by (auto simp: valores_positivos_def)
next
  case (Sacar v agora)
  assume "valores_positivos (historico c)"
  then show ?thesis using Sacar sacar_casos [of c v agora]
    by (auto simp: valores_positivos_def)
next
  case ObterExtrato
  assume "valores_positivos (historico c)"
  then show ?thesis using ObterExtrato by (simp add: obter_extrato_snd)
qed

lemma sem_arredondamento_snoc:
  assumes "sem_arredondamento (h @ [op])" and "dec_le (valor op) zero_int = Inr False"
  shows "sem_arredondamento h"
  using assms centavos_positivo [OF assms(2)]
  by (auto simp: sem_arredondamento_def total_snoc split: if_splits)

lemma Etiny_Etop_2: "Etiny \<le> - 2 \<and> - 2 \<le> Etop"
  by (simp add: Etiny_def Etop_def Emin_def Emax_def prec_def)

lemma depositar_exato:
  assumes "saldo_exato c" and "sem_arredondamento (historico (snd (depositar c v agora)))"
  shows "saldo_exato (snd (depositar c v agora))"
proof -
  from depositar_casos [of c v agora] consider "snd (depositar c v agora) = c"
    | d novo where "validar_valor v = Inr d" "dec_le d zero_int = Inr False"
      "dec_add (saldo c) d = Inr novo"
      "snd (depositar c v agora) =
         c\<lparr>saldo := novo, historico := historico c @ [\<lparr>data = agora, tipo = DEPOSITO, valor = d\<rparr>]\<rparr>"
    by auto
  then show ?thesis
  proof cases
    case 1
    then show ?thesis using assms(1) by simp
  next
    case 2
    let ?h = "historico c"
    let ?op = "\<lparr>data = agora, tipo = DEPOSITO, valor = d\<rparr>"
    have sa: "sem_arredondamento (?h @ [?op])" using assms(2) 2(4) by simp
    then have dc: "duas_casas d" by (simp add: sem_arredondamento_def)
    then obtain m e where d: "d = Finite False m e" "0 < m" "- 2 \<le> e"
      using centavos_positivo [OF 2(2)] by blast
    define k where "k = total DEPOSITO ?h - total SAQUE ?h"
    have k: "saldo c = Finite False (nat k) (- 2)" "0 \<le> k" "0 \<le> total SAQUE ?h"
      using assms(1) by (simp_all add: saldo_exato_def k_def)
    have cd: "centavos d = alinhado False m e (- 2)" "0 < centavos d"
      using d by (simp_all add: centavos_def alinhado_def)
    have td: "total DEPOSITO (?h @ [?op]) = total DEPOSITO ?h + centavos d"
      "total SAQUE (?h @ [?op]) = total SAQUE ?h"
      using tipos_distintos by (simp_all add: total_snoc)
    have lim: "k + centavos d < 10 ^ 28"
      using sa k(3) by (simp add: sem_arredondamento_def td k_def)
    have al: "alinhado False (nat k) (- 2) (- 2) = k" using k(2) by (simp add: alinhado_def)
    have "nat (k + centavos d) < 10 ^ 28" using lim k(2) cd(2) by (simp add: nat_less_iff)
    then have fx: "dec_fix False (nat (k + centavos d)) (- 2) = Inr (Finite False (nat (k + centavos d)) (- 2))"
      using Etiny_Etop_2 by (intro dec_fix_exato) simp_all
    have "dec_add (saldo c) d = dec_fix False (nat (k + centavos d)) (- 2)"
      using k(1,2) d cd by (simp add: Let_def al min_def)
    then have novo: "novo = Finite False (nat (k + centavos d)) (- 2)" using 2(3) fx by simp
    show ?thesis using 2(4) novo k(3) assms(1) cd(2)
      by (simp add: saldo_exato_def td k_def)
  qed
qed

lemma sacar_exato:
  assumes "saldo_exato c" and "sem_arredondamento (historico (snd (sacar c v agora)))"
  shows "saldo_exato (snd (sacar c v agora))"
proof -
  from sacar_casos [of c v agora] consider "snd (sacar c v agora) = c"
    | d novo where "validar_valor v = Inr d" "dec_le d zero_int = Inr False"
      "dec_gt d (saldo c) = Inr False" "dec_sub (saldo c) d = Inr novo"
      "snd (sacar c v agora) =
         c\<lparr>saldo := novo, numero_saques := numero_saques c + 1,
           historico := historico c @ [\<lparr>data = agora, tipo = SAQUE, valor = d\<rparr>]\<rparr>"
    by auto
  then show ?thesis
  proof cases
    case 1
    then show ?thesis using assms(1) by simp
  next
    case 2
    let ?h = "historico c"
    let ?op = "\<lparr>data = agora, tipo = SAQUE, valor = d\<rparr>"
    have sa: "sem_arredondamento (?h @ [?op])" using assms(2) 2(5) by simp
    then have dc: "duas_casas d" by (simp add: sem_arredondamento_def)
    then obtain m e where d: "d = Finite False m e" "0 < m" "- 2 \<le> e"
      using centavos_positivo [OF 2(2)] by blast
    define k where "k = total DEPOSITO ?h - total SAQUE ?h"
    have k: "saldo c = Finite False (nat k) (- 2)" "0 \<le> k" "0 \<le> total SAQUE ?h"
      using assms(1) by (simp_all add: saldo_exato_def k_def)
    have cd: "centavos d = alinhado False m e (- 2)" "0 < centavos d"
      "alinhado True m e (- 2) = - centavos d"
      using d by (simp_all add: centavos_def alinhado_def)
    have td: "total DEPOSITO (?h @ [?op]) = total DEPOSITO ?h"
      "total SAQUE (?h @ [?op]) = total SAQUE ?h + centavos d"
      using tipos_distintos by (simp_all add: total_snoc)
    have lim: "k < 10 ^ 28"
      using sa k(3) by (simp add: sem_arredondamento_def td k_def)
    have al: "alinhado False (nat k) (- 2) (- 2) = k" using k(2) by (simp add: alinhado_def)
    have le: "centavos d \<le> k"
      using 2(3) k(1) d cd(1) al by (auto simp: dec_gt_def Let_def min_def split: if_splits)
    have "nat (k - centavos d) < 10 ^ 28" using lim le cd(2) by (simp add: nat_less_iff)
    then have fx: "dec_fix False (nat (k - centavos d)) (- 2) = Inr (Finite False (nat (k - centavos d)) (- 2))"
      using Etiny_Etop_2 by (intro dec_fix_exato) simp_all
    have "dec_sub (saldo c) d = dec_fix False (nat (k - centavos d)) (- 2)"
      using k(1,2) d cd le by (auto simp: dec_sub_def eh_nan_def Let_def al min_def)
    then have novo: "novo = Finite False (nat (k - centavos d)) (- 2)" using 2(4) fx by simp
    have "nat (k - centavos d) = nat (total DEPOSITO ?h - (total SAQUE ?h + centavos d))"
      by (simp add: k_def algebra_simps)
    then show ?thesis using 2(5) novo k(3) le cd(2)
      by (simp add: saldo_exato_def td k_def)
  qed
qed

lemma executar_positivos:
  assumes "init l n = Inr c0"
  shows "valores_positivos (historico (executar c0 cs))"
proof (induction cs rule: rev_induct)
  case Nil
  then show ?case using init_campos [OF assms] by (simp add: executar_def valores_positivos_def)
next
  case (snoc x cs)
  then show ?case using aplicar_positivos [of "executar c0 cs" x] by (simp add: executar_snoc)
qed

lemma aplicar_exato:
  assumes "saldo_exato c" and "sem_arredondamento (historico (aplicar c x))"
  shows "saldo_exato (aplicar c x)"
proof (cases x)
  case (Depositar v agora)
  then show ?thesis using assms depositar_exato [of c v agora] by simp
next
  case (Sacar v agora)
  then show ?thesis using assms sacar_exato [of c v agora] by simp
next
  case ObterExtrato
  then show ?thesis using assms by (simp add: obter_extrato_snd)
qed

lemma aplicar_sem_arredondamento:
  assumes "valores_positivos (historico (aplicar c x))"
    and "sem_arredondamento (historico (aplicar c x))"
  shows "sem_arredondamento (historico c)"
proof -
  from aplicar_historico [of c x] consider "historico (aplicar c x) = historico c"
    | op where "historico (aplicar c x) = historico c @ [op]" by blast
  then show ?thesis
  proof cases
    case 1
    then show ?thesis using assms(2) by simp
  next
    case 2
    then have "dec_le (valor op) zero_int = Inr False"
      using assms(1) by (simp add: valores_positivos_def)
    then show ?thesis using assms(2) 2 sem_arredondamento_snoc [of "historico c" op] by simp
  qed
qed

lemma executar_exato:
  assumes "init l n = Inr c0"
  shows "sem_arredondamento (historico (executar c0 cs)) \<Longrightarrow> saldo_exato (executar c0 cs)"
proof (induction cs rule: rev_induct)
  case Nil
  then show ?case using init_campos [OF assms]
    by (simp add: executar_def saldo_exato_def total_def)
next
  case (snoc x cs)
  have p: "valores_positivos (historico (aplicar (executar c0 cs) x))"
    using executar_positivos [OF assms, of "cs @ [x]"] by (simp add: executar_snoc)
  have s: "sem_arredondamento (historico (aplicar (executar c0 cs) x))"
    using snoc.prems by (simp add: executar_snoc)
  have "sem_arredondamento (historico (executar c0 cs))"
    using aplicar_sem_arredondamento [OF p s] .
  then have "saldo_exato (executar c0 cs)" by (rule snoc.IH)
  then show ?case using aplicar_exato [OF _ s] by (simp add: executar_snoc)
qed

lemma nao_negativo_gt: "nao_negativo d \<Longrightarrow> dec_gt zero_int d = Inr False"
  by (cases d) (auto simp: nao_negativo_def dec_gt_def zero_int_def Let_def alinhado_def)

lemma deposito_grande:
  "depositar conta_padrao (PyStr ''99999999999999999999999999999'') ''01/01/2024 10:00:00'' =
     ((True, DepositoRealizado (Finite False 99999999999999999999999999999 0)),
      conta_padrao\<lparr>saldo := Finite False 1000000000000000000000000000 2,
        historico := [\<lparr>data = ''01/01/2024 10:00:00'', tipo = DEPOSITO,
                       valor = Finite False 99999999999999999999999999999 0\<rparr>]\<rparr>)"
  by (simp add: conta_defs texto_defs decimal_defs)

text \<open>
  C1, within the precision of the context. After any sequence of calls on a fresh
  account the balance is not negative: \<^verbatim>\<open>0 > saldo\<close> is false and the balance carries no
  minus sign. If moreover every recorded amount has at most two fraction digits (as
  every amount given as text has) and the recorded deposits total less than \<open>10^26\<close>
  (\<open>10^28\<close> hundredths), then the balance is exactly the recorded deposits minus the
  recorded withdrawals: it is the Decimal of exponent \<open>-2\<close> whose coefficient is that
  difference in hundredths. With no withdrawal recorded it is the sum of the deposits.
\<close>

theorem balance_matches_history:
  assumes "init l n = Inr c0"
  shows "dec_gt zero_int (saldo (executar c0 cs)) = Inr False \<and>
         nao_negativo (saldo (executar c0 cs)) \<and>
         ((\<forall>op\<in>set (historico (executar c0 cs)). duas_casas (valor op)) \<and>
          total DEPOSITO (historico (executar c0 cs)) < 10 ^ 28 \<longrightarrow>
            saldo (executar c0 cs) =
              Finite False (nat (total DEPOSITO (historico (executar c0 cs)) -
                                 total SAQUE (historico (executar c0 cs)))) (- 2) \<and>
            centavos (saldo (executar c0 cs)) =
              total DEPOSITO (historico (executar c0 cs)) - total SAQUE (historico (executar c0 cs)) \<and>
            0 \<le> centavos (saldo (executar c0 cs)))"
proof -
  have n: "nao_negativo (saldo (executar c0 cs))" using executar_saldo [OF assms] by blast
  have e: "sem_arredondamento (historico (executar c0 cs)) \<Longrightarrow> saldo_exato (executar c0 cs)"
    by (rule executar_exato [OF assms])
  have c: "saldo_exato (executar c0 cs) \<Longrightarrow>
      centavos (saldo (executar c0 cs)) =
        total DEPOSITO (historico (executar c0 cs)) - total SAQUE (historico (executar c0 cs)) \<and>
      0 \<le> centavos (saldo (executar c0 cs))"
    by (simp add: saldo_exato_def centavos_def alinhado_def)
  show ?thesis using n nao_negativo_gt [OF n] e c
    by (auto simp: sem_arredondamento_def list_all_iff saldo_exato_def)
qed

theorem balance_matches_history_witness:
  "init ''500'' 3 = Inr conta_padrao \<and>
   map valor (historico (executar conta_padrao
      [Depositar (PyStr ''100,50'') ''01/01/2024 10:00:00'',
       Sacar (PyStr ''30.25'') ''01/01/2024 10:00:01''])) =
     [Finite False 10050 (- 2), Finite False 3025 (- 2)] \<and>
   duas_casas (Finite False 10050 (- 2)) \<and> duas_casas (Finite False 3025 (- 2)) \<and>
   total DEPOSITO (historico (executar conta_padrao
      [Depositar (PyStr ''100,50'') ''01/01/2024 10:00:00'',
       Sacar (PyStr ''30.25'') ''01/01/2024 10:00:01''])) = 10050 \<and>
   total SAQUE (historico (executar conta_padrao
      [Depositar (PyStr ''100,50'') ''01/01/2024 10:00:00'',
       Sacar (PyStr ''30.25'') ''01/01/2024 10:00:01''])) = 3025 \<and>
   (10050::int) < 10 ^ 28 \<and>
   saldo (executar conta_padrao
      [Depositar (PyStr ''100,50'') ''01/01/2024 10:00:00'',
       Sacar (PyStr ''30.25'') ''01/01/2024 10:00:01'']) = Finite False 7025 (- 2)"
  using balance_matches_history [OF init_padrao, of
      "[Depositar (PyStr ''100,50'') ''01/01/2024 10:00:00'',
        Sacar (PyStr ''30.25'') ''01/01/2024 10:00:01'']"]
  by (simp add: conta_defs texto_defs decimal_defs total_def centavos_def duas_casas_def
      DEPOSITO_def SAQUE_def nao_negativo_def)

text \<open>
  C1 does not hold for every amount. On the default account one deposit of
  \<^verbatim>\<open>"99999999999999999999999999999"\<close> (29 digits) succeeds and is recorded as given, but
  the sum \<^verbatim>\<open>0.00 + 99999999999999999999999999999\<close> needs 31 digits and the context
  rounds it to 28: the balance becomes \<^verbatim>\<open>1.000000000000000000000000000E+29\<close>, which
  \<^verbatim>\<open>>\<close> finds greater than the only deposit. In hundredths the balance is \<open>10^31\<close>
  and the recorded deposits are \<open>10^31 - 100\<close>.
\<close>

theorem balance_counterexample:
  "init ''500'' 3 = Inr conta_padrao \<and>
   fst (depositar conta_padrao (PyStr ''99999999999999999999999999999'') ''01/01/2024 10:00:00'') =
     (True, DepositoRealizado (Finite False 99999999999999999999999999999 0)) \<and>
   map valor (historico (executar conta_padrao
     [Depositar (PyStr ''99999999999999999999999999999'') ''01/01/2024 10:00:00''])) =
     [Finite False 99999999999999999999999999999 0] \<and>
   saldo (executar conta_padrao
     [Depositar (PyStr ''99999999999999999999999999999'') ''01/01/2024 10:00:00'']) =
     Finite False 1000000000000000000000000000 2 \<and>
   dec_gt (Finite False 1000000000000000000000000000 2)
     (Finite False 99999999999999999999999999999 0) = Inr True \<and>
   centavos (Finite False 1000000000000000000000000000 2) = 10 ^ 31 \<and>
   total DEPOSITO (historico (executar conta_padrao
     [Depositar (PyStr ''99999999999999999999999999999'') ''01/01/2024 10:00:00''])) -
   total SAQUE (historico (executar conta_padrao
     [Depositar (PyStr ''99999999999999999999999999999'') ''01/01/2024 10:00:00''])) = 10 ^ 31 - 100"
  using init_padrao
  by (simp add: executar_def deposito_grande total_def centavos_def alinhado_def dec_gt_def
      DEPOSITO_def SAQUE_def)

end
